theory Spec2Isabelle
  imports Complex_Main "HOL-Library.Product_Lexorder" "HOL-Library.Multiset"
begin

section \<open>Python strings, slices and ranges\<close>

text \<open>
  Texts are lists of code points below 256 (the Latin-1 range of Python's \<open>str\<close>).
  \<open>py_isspace\<close> is \<open>str.isspace\<close> on one character, which is also what
  \<open>\s\<close> of \<open>re\<close>, \<open>str.split()\<close> and \<open>str.strip()\<close> test.
\<close>

definition py_isspace :: "char \<Rightarrow> bool" where
  "py_isspace c =
     (let n = of_char c :: nat
      in (9 \<le> n \<and> n \<le> 13) \<or> (28 \<le> n \<and> n \<le> 32) \<or> n = 133 \<or> n = 160)"

definition py_lower_char :: "char \<Rightarrow> char" where
  "py_lower_char c =
     (let n = of_char c :: nat
      in if (65 \<le> n \<and> n \<le> 90) \<or> (192 \<le> n \<and> n \<le> 222 \<and> n \<noteq> 215)
         then char_of (n + 32) else c)"

definition py_lower :: "string \<Rightarrow> string" where
  "py_lower s = map py_lower_char s"

text \<open>\<open>re.sub(r'\s+', ' ', text)\<close>: every maximal run of whitespace becomes one space.
  The flag says that the previous character was whitespace.\<close>

fun sub_ws_run :: "bool \<Rightarrow> string \<Rightarrow> string" where
  "sub_ws_run in_run [] = []"
| "sub_ws_run in_run (c # cs) =
     (if py_isspace c
      then (if in_run then sub_ws_run True cs else CHR '' '' # sub_ws_run True cs)
      else c # sub_ws_run False cs)"

definition sub_ws :: "string \<Rightarrow> string" where
  "sub_ws s = sub_ws_run False s"

definition py_strip :: "string \<Rightarrow> string" where
  "py_strip s = rev (dropWhile py_isspace (rev (dropWhile py_isspace s)))"

text \<open>\<open>str.split()\<close> without arguments: the maximal runs of non-whitespace.
  The first argument is the word read so far.\<close>

fun py_split_acc :: "string \<Rightarrow> string \<Rightarrow> string list" where
  "py_split_acc w [] = (if w = [] then [] else [w])"
| "py_split_acc w (c # cs) =
     (if py_isspace c
      then (if w = [] then py_split_acc [] cs else w # py_split_acc [] cs)
      else py_split_acc (w @ [c]) cs)"

definition py_split :: "string \<Rightarrow> string list" where
  "py_split s = py_split_acc [] s"

fun py_join :: "string \<Rightarrow> string list \<Rightarrow> string" where
  "py_join sep [] = []"
| "py_join sep [w] = w"
| "py_join sep (w # v # ws) = w @ sep @ py_join sep (v # ws)"

datatype py_error =
    ValueError string
  | ZeroDivisionError
  | IndexError
  | NameError string
  | RaisedError string

text \<open>\<open>xs[lo:hi]\<close>: a negative bound counts from the end, and both are clamped.\<close>

definition py_slice_bound :: "nat \<Rightarrow> int \<Rightarrow> nat" where
  "py_slice_bound n i = (if i < 0 then nat (max (int n + i) 0) else min (nat i) n)"

definition py_slice :: "'a list \<Rightarrow> int \<Rightarrow> int \<Rightarrow> 'a list" where
  "py_slice xs lo hi =
     (let l = py_slice_bound (length xs) lo; h = py_slice_bound (length xs) hi
      in take (h - l) (drop l xs))"

text \<open>\<open>range(0, n, step)\<close> for \<open>n = len(words)\<close>: a zero step raises, a negative step
  gives the empty range.\<close>

definition py_range0 :: "nat \<Rightarrow> int \<Rightarrow> py_error + nat list" where
  "py_range0 n step =
     (if step = 0 then Inl (ValueError ''range() arg 3 must not be zero'')
      else if step < 0 then Inr []
      else Inr (map (\<lambda>k. k * nat step) [0 ..< (n + nat step - 1) div nat step]))"

section \<open>The data model (data_models.py)\<close>

record chunk_metadata =
  word_count :: nat
  similarity_score :: "rat option"

record DocumentChunk =
  content :: string
  source_url :: string
  chunk_index :: nat
  metadata :: chunk_metadata

section \<open>The chunker (rag\_agent.py)\<close>

definition preprocess_text :: "string \<Rightarrow> string" where
  "preprocess_text text = py_strip (sub_ws (py_lower text))"

definition make_chunk :: "int \<Rightarrow> string list \<Rightarrow> string \<Rightarrow> DocumentChunk list \<Rightarrow> nat \<Rightarrow> DocumentChunk" where
  "make_chunk cs words url chunks i =
     (let chunk_words = py_slice words (int i) (int i + cs)
      in \<lparr> content = preprocess_text (py_join '' '' chunk_words),
           source_url = url,
           chunk_index = length chunks,
           metadata = \<lparr> word_count = length chunk_words, similarity_score = None \<rparr> \<rparr>)"

text \<open>The loop of \<open>_chunk_text\<close> over the words of the text.\<close>

definition chunk_words :: "int \<Rightarrow> int \<Rightarrow> string list \<Rightarrow> string \<Rightarrow> py_error + DocumentChunk list" where
  "chunk_words cs co words url =
     (case py_range0 (length words) (cs - co) of
        Inl e \<Rightarrow> Inl e
      | Inr starts \<Rightarrow>
          Inr (foldl (\<lambda>chunks i. chunks @ [make_chunk cs words url chunks i]) [] starts))"

definition chunk_text :: "int \<Rightarrow> int \<Rightarrow> string \<Rightarrow> string \<Rightarrow> py_error + DocumentChunk list" where
  "chunk_text cs co text url = chunk_words cs co (py_split text) url"


section \<open>The indexer (rag\_agent.py)\<close>

record ScrapedContent =
  sc_url :: string
  sc_title :: string
  sc_content :: string
  sc_text_length :: nat
  sc_timestamp :: rat
  sc_success :: bool
  sc_error_message :: "string option"
  sc_method :: "string option"

text \<open>
  The agent. \<open>has_model\<close> says that \<open>self.model\<close> is a loaded model and not \<open>None\<close>;
  a matrix is the list of its rows, so \<open>len(self.embeddings)\<close> is the length of the
  list; \<open>index\<close> holds the rows given to the nearest-neighbour structure. Scores are
  exact rationals where Python has floats.
\<close>

record rag_agent =
  chunk_size :: int
  chunk_overlap :: int
  document_chunks :: "DocumentChunk list"
  use_embeddings :: bool
  has_model :: bool
  embeddings :: "rat list list option"
  index :: "rat list list option"

text \<open>
  \<open>__init__\<close>: the second flag is \<open>EMBEDDINGS_AVAILABLE\<close>. The call
  \<open>SentenceTransformer('all-MiniLM-L6-v2')\<close> is the one statement that can raise;
  \<open>load_error\<close> is the exception it raises, or \<open>None\<close> when the model loads. In
  keyword mode the attributes \<open>embeddings\<close> and \<open>index\<close> are not set, which the
  model writes as \<open>None\<close>.
\<close>

definition init ::
  "int \<Rightarrow> int \<Rightarrow> bool \<Rightarrow> bool \<Rightarrow> py_error option \<Rightarrow> py_error + rag_agent" where
  "init cs co ue available load_error =
     (if ue \<and> available
      then (case load_error of
              Some e \<Rightarrow> Inl e
            | None \<Rightarrow>
                Inr \<lparr> chunk_size = cs, chunk_overlap = co, document_chunks = [],
                      use_embeddings = True, has_model = True,
                      embeddings = None, index = None \<rparr>)
      else Inr \<lparr> chunk_size = cs, chunk_overlap = co, document_chunks = [],
                 use_embeddings = False, has_model = False,
                 embeddings = None, index = None \<rparr>)"

text \<open>The first loop of \<open>index_documents\<close>: the chunks of the documents that pass the
  filter, in order. An exception of \<open>_chunk_text\<close> leaves the loop.\<close>

fun collect_chunks :: "int \<Rightarrow> int \<Rightarrow> ScrapedContent list \<Rightarrow> py_error + DocumentChunk list" where
  "collect_chunks cs co [] = Inr []"
| "collect_chunks cs co (doc # docs) =
     (if sc_success doc \<and> sc_content doc \<noteq> [] \<and> length (py_strip (sc_content doc)) > 100
      then (case chunk_text cs co (sc_content doc) (sc_url doc) of
              Inl e \<Rightarrow> Inl e
            | Inr chunks \<Rightarrow>
                (case collect_chunks cs co docs of
                   Inl e \<Rightarrow> Inl e
                 | Inr rest \<Rightarrow> Inr (chunks @ rest)))
      else collect_chunks cs co docs)"

text \<open>\<open>np.vstack\<close> of two matrices: the rows must have one length.\<close>

definition vstack :: "rat list list \<Rightarrow> rat list list \<Rightarrow> py_error + rat list list" where
  "vstack a b =
     (if list_all (\<lambda>r. list_all (\<lambda>s. length r = length s) b) a
      then Inr (a @ b)
      else Inl (ValueError ''all the input array dimensions except for the concatenation axis must match exactly''))"

text \<open>
  \<open>index_documents\<close>. The encoder \<open>enc\<close> (\<open>self.model.encode\<close>) and the normalisation
  \<open>nrm\<close> (\<open>faiss.normalize_L2\<close>) are the external libraries, taken as parameters.
  The result is the exception raised, if any, and the agent as the call leaves it:
  the chunks are appended before the embeddings are computed.
\<close>

definition index_documents ::
  "(string list \<Rightarrow> rat list list) \<Rightarrow> (rat list list \<Rightarrow> rat list list) \<Rightarrow>
   rag_agent \<Rightarrow> ScrapedContent list \<Rightarrow> py_error option \<times> rag_agent" where
  "index_documents enc nrm a documents =
     (case collect_chunks (chunk_size a) (chunk_overlap a) documents of
        Inl e \<Rightarrow> (Some e, a)
      | Inr new_chunks \<Rightarrow>
          (let a1 = a\<lparr>document_chunks := document_chunks a @ new_chunks\<rparr>
           in if use_embeddings a1 \<and> has_model a1 \<and> new_chunks \<noteq> []
              then (let new_embeddings = enc (map content new_chunks)
                    in case (case embeddings a1 of
                               None \<Rightarrow> Inr new_embeddings
                             | Some old \<Rightarrow> vstack old new_embeddings) of
                         Inl e \<Rightarrow> (Some e, a1)
                       | Inr m \<Rightarrow> (None, a1\<lparr>embeddings := Some m, index := Some (nrm m)\<rparr>))
              else (None, a1)))"

text \<open>A sequence of calls, each on the agent the previous one left.\<close>

definition index_all ::
  "(string list \<Rightarrow> rat list list) \<Rightarrow> (rat list list \<Rightarrow> rat list list) \<Rightarrow>
   rag_agent \<Rightarrow> ScrapedContent list list \<Rightarrow> rag_agent" where
  "index_all enc nrm a batches = foldl (\<lambda>s docs. snd (index_documents enc nrm s docs)) a batches"

fun matrix_rows :: "rat list list option \<Rightarrow> nat" where
  "matrix_rows None = 0"
| "matrix_rows (Some m) = length m"

definition word_counts :: "py_error + DocumentChunk list \<Rightarrow> nat list" where
  "word_counts r = (case r of Inl e \<Rightarrow> [] | Inr cs \<Rightarrow> map (\<lambda>c. word_count (metadata c)) cs)"

section \<open>The retriever (rag\_agent.py)\<close>

text \<open>\<open>a / b\<close> on two lengths.\<close>

definition py_truediv :: "nat \<Rightarrow> nat \<Rightarrow> py_error + rat" where
  "py_truediv a b = (if b = 0 then Inl ZeroDivisionError else Inr (of_nat a / of_nat b))"

definition calculate_keyword_similarity :: "string \<Rightarrow> DocumentChunk \<Rightarrow> py_error + rat" where
  "calculate_keyword_similarity query chunk =
     (let query_words = set (py_split (preprocess_text query));
          chunk_words = set (py_split (content chunk))
      in if query_words = {} then Inr 0
         else (let intersection = card (query_words \<inter> chunk_words);
                   union = card (query_words \<union> chunk_words)
               in if union > 0 then py_truediv intersection union else Inr 0))"

record RAGResult =
  rr_query :: string
  relevant_chunks :: "DocumentChunk list"
  generated_response :: string
  confidence_score :: rat
  sources :: "string set"
  retrieval_time :: rat
  generation_time :: rat

text \<open>The four readings of \<open>time.time()\<close> that a query that finds chunks makes.\<close>

record clock =
  t_start :: rat
  t_retrieved :: rat
  t_generation_start :: rat
  t_end :: rat

text \<open>\<open>chunk.metadata['similarity_score'] = score\<close>\<close>

definition set_score :: "DocumentChunk \<Rightarrow> rat \<Rightarrow> DocumentChunk" where
  "set_score chunk s = chunk\<lparr>metadata := (metadata chunk)\<lparr>similarity_score := Some s\<rparr>\<rparr>"

text \<open>\<open>chunk.metadata.get('similarity_score', 0)\<close>\<close>

definition get_score :: "DocumentChunk \<Rightarrow> rat" where
  "get_score chunk = (case similarity_score (metadata chunk) of None \<Rightarrow> 0 | Some s \<Rightarrow> s)"

text \<open>\<open>xs.sort(reverse=True, key=...)\<close>: the list is reversed, sorted by a stable sort
  and reversed again, so equal keys keep their order.\<close>

definition py_sort_desc :: "('a \<Rightarrow> 'k::linorder) \<Rightarrow> 'a list \<Rightarrow> 'a list" where
  "py_sort_desc key xs = rev (sort_key key (rev xs))"

text \<open>The loop of the keyword branch: every chunk with its score, the chunk carrying
  the score in its metadata when the score is positive.\<close>

fun keyword_scan :: "string \<Rightarrow> DocumentChunk list \<Rightarrow> py_error + (rat \<times> DocumentChunk) list" where
  "keyword_scan q [] = Inr []"
| "keyword_scan q (chunk # rest) =
     (case calculate_keyword_similarity q chunk of
        Inl e \<Rightarrow> Inl e
      | Inr score \<Rightarrow>
          (case keyword_scan q rest of
             Inl e \<Rightarrow> Inl e
           | Inr scanned \<Rightarrow>
               Inr ((score, if score > 0 then set_score chunk score else chunk) # scanned)))"

text \<open>\<open>xs[i]\<close> on a list of length \<open>n\<close>: the position read, or IndexError.\<close>

definition py_index_pos :: "nat \<Rightarrow> int \<Rightarrow> py_error + nat" where
  "py_index_pos n i =
     (let j = (if i < 0 then int n + i else i)
      in if 0 \<le> j \<and> j < int n then Inr (nat j) else Inl IndexError)"

text \<open>The loop of the embedding branch over the hits of the nearest-neighbour search.
  The chunks are objects shared with the index, so the loop updates the chunk list in
  place and the candidates name chunks by position.\<close>

fun rerank ::
  "string \<Rightarrow> (rat \<times> int) list \<Rightarrow> DocumentChunk list \<Rightarrow> (rat \<times> nat) list \<Rightarrow>
   py_error + (DocumentChunk list \<times> (rat \<times> nat) list)" where
  "rerank q [] chunks cands = Inr (chunks, cands)"
| "rerank q ((score, idx) # hits) chunks cands =
     (case py_index_pos (length chunks) idx of
        Inl e \<Rightarrow> Inl e
      | Inr j \<Rightarrow>
          (case calculate_keyword_similarity q (chunks ! j) of
             Inl e \<Rightarrow> Inl e
           | Inr keyword_score \<Rightarrow>
               (let combined_score = 7 / 10 * score + 3 / 10 * keyword_score
                in rerank q hits (chunks[j := set_score (chunks ! j) combined_score])
                     (cands @ [(combined_score, j)]))))"

text \<open>
  Retrieval: the relevant chunks and the chunk list after the loop. \<open>search\<close> is the
  external search (encoding and normalising the query, then \<open>self.index.search\<close>):
  from the indexed rows, the preprocessed query and \<open>k_search\<close> to the pairs of
  \<open>zip(scores[0], indices[0])\<close>.
\<close>

definition retrieve ::
  "(rat list list \<Rightarrow> string \<Rightarrow> int \<Rightarrow> py_error + (rat \<times> int) list) \<Rightarrow>
   rag_agent \<Rightarrow> string \<Rightarrow> int \<Rightarrow> py_error + (DocumentChunk list \<times> DocumentChunk list)" where
  "retrieve search a q top_k =
     (case (if use_embeddings a then index a else None) of
        Some rows \<Rightarrow>
          (case search rows (preprocess_text q)
                  (min (top_k * 3) (int (length (document_chunks a)))) of
             Inl e \<Rightarrow> Inl e
           | Inr hits \<Rightarrow>
               (case rerank q hits (document_chunks a) [] of
                  Inl e \<Rightarrow> Inl e
                | Inr (chunks, cands) \<Rightarrow>
                    Inr (map (\<lambda>c. chunks ! snd c) (py_slice (py_sort_desc fst cands) 0 top_k),
                         chunks)))
      | None \<Rightarrow>
          (case keyword_scan q (document_chunks a) of
             Inl e \<Rightarrow> Inl e
           | Inr scanned \<Rightarrow>
               Inr (map snd (py_slice (py_sort_desc fst (filter (\<lambda>sc. fst sc > 0) scanned)) 0 top_k),
                    map snd scanned)))"

definition mean :: "rat list \<Rightarrow> rat" where
  "mean xs = sum_list xs / of_nat (length xs)"

definition context_entry :: "DocumentChunk \<Rightarrow> string" where
  "context_entry chunk = ''Source: '' @ source_url chunk @ [CHR 0x0A] @ content chunk"

text \<open>The response generation of \<open>query\<close>.\<close>

definition respond :: "clock \<Rightarrow> string \<Rightarrow> DocumentChunk list \<Rightarrow> RAGResult" where
  "respond clk q relevant =
     \<lparr> rr_query = q,
       relevant_chunks = relevant,
       generated_response =
         (if relevant \<noteq> []
          then ''Based on the retrieved context for '' @ [CHR 0x27] @ q @ [CHR 0x27]
                 @ '', here is a summary:'' @ [CHR 0x0A, CHR 0x0A]
                 @ py_join [CHR 0x0A, CHR 0x0A] (map context_entry (py_slice relevant 0 3))
          else ''No relevant information found for query: '' @ q),
       confidence_score = (if relevant \<noteq> [] then mean (map get_score relevant) else 0),
       sources = set (map source_url relevant),
       retrieval_time = t_retrieved clk - t_start clk,
       generation_time = t_end clk - t_generation_start clk \<rparr>"

text \<open>\<open>query\<close>: the result and the agent after the call, or the exception.\<close>

definition query ::
  "(rat list list \<Rightarrow> string \<Rightarrow> int \<Rightarrow> py_error + (rat \<times> int) list) \<Rightarrow> clock \<Rightarrow>
   rag_agent \<Rightarrow> string \<Rightarrow> int \<Rightarrow> py_error + (RAGResult \<times> rag_agent)" where
  "query search clk a q top_k =
     (if document_chunks a = []
      then Inr (\<lparr> rr_query = q, relevant_chunks = [],
                  generated_response = ''No indexed documents available.'',
                  confidence_score = 0, sources = {},
                  retrieval_time = 0, generation_time = 0 \<rparr>, a)
      else (case retrieve search a q top_k of
              Inl e \<Rightarrow> Inl e
            | Inr (relevant, chunks) \<Rightarrow>
                Inr (respond clk q relevant, a\<lparr>document_chunks := chunks\<rparr>)))"

section \<open>The scraper (scraper.py)\<close>

text \<open>\<open>\w\<close> of \<open>re\<close> on one character: alphanumeric or the underscore.\<close>

definition py_isword :: "char \<Rightarrow> bool" where
  "py_isword c =
     (let n = of_char c :: nat
      in (48 \<le> n \<and> n \<le> 57) \<or> (65 \<le> n \<and> n \<le> 90) \<or> n = 95 \<or> (97 \<le> n \<and> n \<le> 122)
         \<or> n = 170 \<or> n = 178 \<or> n = 179 \<or> n = 181 \<or> n = 185 \<or> n = 186
         \<or> (188 \<le> n \<and> n \<le> 190) \<or> (192 \<le> n \<and> n \<le> 214) \<or> (216 \<le> n \<and> n \<le> 246)
         \<or> 248 \<le> n)"

text \<open>\<open>re.sub(r' +', ' ', text)\<close>\<close>

fun sub_spaces :: "bool \<Rightarrow> string \<Rightarrow> string" where
  "sub_spaces in_run [] = []"
| "sub_spaces in_run (c # cs) =
     (if c = CHR '' ''
      then (if in_run then sub_spaces True cs else c # sub_spaces True cs)
      else c # sub_spaces False cs)"

text \<open>The punctuation that the second substitution of \<open>_clean_text\<close> keeps; the last
  character is the double quote.\<close>

definition kept_punctuation :: "char list" where
  "kept_punctuation = ''.,!?;:()-'' @ [CHR 0x22]"

definition clean_text :: "string \<Rightarrow> string" where
  "clean_text text =
     (let t1 = sub_ws text;
          t2 = filter (\<lambda>c. py_isword c \<or> py_isspace c \<or> List.member kept_punctuation c) t1
      in py_strip (sub_spaces False t2))"

text \<open>
  What one attempt meets. \<open>FetchRaises\<close> is an exception of the request or of reading
  the body, with its message. A page is what the two extraction libraries find in the
  body: the text of \<open>trafilatura.extract\<close> (or \<open>None\<close>), the title tag, and the text of
  the first of main, article and body after the boilerplate tags are removed (or
  \<open>None\<close> when there is none).
\<close>

datatype title_tag = NoTitleTag | TitleString string | TitleWithoutString

record page =
  pg_trafilatura :: "string option"
  pg_title :: title_tag
  pg_main_text :: "string option"

datatype fetch = FetchRaises string | FetchStatus nat page

datatype event = Request nat | Sleep rat

record scraper =
  max_retries :: int
  timeout :: int
  rate_limit_delay :: rat
  last_request_time :: rat

text \<open>The two import flags: \<open>SCRAPING_AVAILABLE\<close> holds when both imports succeed,
  and the name \<open>BeautifulSoup\<close> is bound when the first does.\<close>

record import_flags =
  bs4_imported :: bool
  trafilatura_imported :: bool

definition string_of_digit :: "nat \<Rightarrow> char" where
  "string_of_digit n = char_of (48 + n)"

fun string_of_nat :: "nat \<Rightarrow> string" where
  "string_of_nat n =
     (if n < 10 then [string_of_digit n]
      else string_of_nat (n div 10) @ [string_of_digit (n mod 10)])"

declare string_of_nat.simps [simp del]

definition quoted :: "string \<Rightarrow> string" where
  "quoted s = [CHR 0x27] @ s @ [CHR 0x27]"

text \<open>\<open>soup = BeautifulSoup(...)\<close> then
  \<open>soup.title.string.strip() if soup.title else "No Title"\<close>: the name is unbound when
  the import failed, and a title tag whose \<open>string\<close> is \<open>None\<close> raises AttributeError.\<close>

definition soup_title :: "import_flags \<Rightarrow> page \<Rightarrow> string + string" where
  "soup_title imp pg =
     (if \<not> bs4_imported imp then Inl (''name '' @ quoted ''BeautifulSoup'' @ '' is not defined'')
      else (case pg_title pg of
              NoTitleTag \<Rightarrow> Inr ''No Title''
            | TitleString t \<Rightarrow> Inr (py_strip t)
            | TitleWithoutString \<Rightarrow>
                Inl (quoted ''NoneType'' @ '' object has no attribute '' @ quoted ''strip'')))"

definition scraped :: "string \<Rightarrow> string \<Rightarrow> string \<Rightarrow> rat \<Rightarrow> string \<Rightarrow> ScrapedContent" where
  "scraped url ttl cleaned_content now method =
     \<lparr> sc_url = url, sc_title = ttl, sc_content = cleaned_content,
       sc_text_length = length cleaned_content, sc_timestamp = now, sc_success = True,
       sc_error_message = None, sc_method = Some method \<rparr>"

text \<open>The body of the \<open>status == 200\<close> branch: the content, or the message of the
  exception raised in it.\<close>

definition extract_content :: "import_flags \<Rightarrow> string \<Rightarrow> rat \<Rightarrow> page \<Rightarrow> string + ScrapedContent" where
  "extract_content imp url now pg =
     (let primary = (if bs4_imported imp \<and> trafilatura_imported imp
                     then (case pg_trafilatura pg of None \<Rightarrow> [] | Some c \<Rightarrow> c) else [])
      in if primary \<noteq> []
         then (case soup_title imp pg of
                 Inl e \<Rightarrow> Inl e
               | Inr ttl \<Rightarrow> Inr (scraped url ttl (clean_text primary) now ''trafilatura''))
         else (case soup_title imp pg of
                 Inl e \<Rightarrow> Inl e
               | Inr ttl \<Rightarrow>
                   (let text_content = (case pg_main_text pg of None \<Rightarrow> [] | Some t \<Rightarrow> t)
                    in Inr (scraped url ttl (clean_text text_content) now ''beautifulsoup''))))"

definition failed :: "string \<Rightarrow> rat \<Rightarrow> string \<Rightarrow> ScrapedContent" where
  "failed url now error_msg =
     \<lparr> sc_url = url, sc_title = [], sc_content = [], sc_text_length = 0, sc_timestamp = now,
       sc_success = False, sc_error_message = Some error_msg, sc_method = None \<rparr>"

text \<open>The \<open>except\<close> branch: the events of an attempt that raised.\<close>

definition on_exception :: "int \<Rightarrow> nat \<Rightarrow> event list" where
  "on_exception retries attempt =
     (if int attempt < retries - 1 then [Sleep (2 ^ attempt)] else [])"

text \<open>
  The retry loop over the attempts still to make. \<open>fetches\<close> gives what each attempt
  meets; the loop carries \<open>error_msg\<close> and the events so far (requests and sleeps, in
  order).
\<close>

fun retry_loop ::
  "import_flags \<Rightarrow> int \<Rightarrow> string \<Rightarrow> rat \<Rightarrow> (nat \<Rightarrow> fetch) \<Rightarrow> nat list \<Rightarrow> string \<Rightarrow> event list \<Rightarrow>
   ScrapedContent \<times> event list" where
  "retry_loop imp retries url now fetches [] error_msg evs = (failed url now error_msg, evs)"
| "retry_loop imp retries url now fetches (attempt # rest) error_msg evs =
     (case fetches attempt of
        FetchRaises e \<Rightarrow>
          retry_loop imp retries url now fetches rest e
            (evs @ Request attempt # on_exception retries attempt)
      | FetchStatus status pg \<Rightarrow>
          (if status = 200
           then (case extract_content imp url now pg of
                   Inl e \<Rightarrow>
                     retry_loop imp retries url now fetches rest e
                       (evs @ Request attempt # on_exception retries attempt)
                 | Inr result \<Rightarrow> (result, evs @ [Request attempt]))
           else retry_loop imp retries url now fetches rest (''HTTP '' @ string_of_nat status)
                  (evs @ [Request attempt])))"

text \<open>\<open>_rate_limit\<close>: \<open>t_now\<close> and \<open>t_after\<close> are its two readings of the clock.\<close>

definition rate_limit :: "scraper \<Rightarrow> rat \<Rightarrow> rat \<Rightarrow> scraper \<times> event list" where
  "rate_limit s t_now t_after =
     (let time_since_last = t_now - last_request_time s
      in (s\<lparr>last_request_time := t_after\<rparr>,
          if time_since_last < rate_limit_delay s
          then [Sleep (rate_limit_delay s - time_since_last)] else []))"

text \<open>\<open>scrape_url\<close>: the content, the scraper after the call and the events of the
  call. \<open>range(self.max_retries)\<close> is empty for a negative count.\<close>

definition scrape_url ::
  "import_flags \<Rightarrow> scraper \<Rightarrow> rat \<Rightarrow> rat \<Rightarrow> rat \<Rightarrow> (nat \<Rightarrow> fetch) \<Rightarrow> string \<Rightarrow>
   ScrapedContent \<times> scraper \<times> event list" where
  "scrape_url imp s t_now t_after now fetches url =
     (case rate_limit s t_now t_after of
        (s1, evs) \<Rightarrow>
          (case retry_loop imp (max_retries s) url now fetches [0 ..< nat (max_retries s)] [] evs of
             (result, evs1) \<Rightarrow> (result, s1, evs1)))"

text \<open>\<open>WebScraperAgent()\<close> with the defaults of the constructor.\<close>

definition default_scraper :: scraper where
  "default_scraper = \<lparr> max_retries = 3, timeout = 30, rate_limit_delay = 1, last_request_time = 0 \<rparr>"

section \<open>The search aggregator (search\_agents.py)\<close>

record SearchResult =
  sr_title :: string
  sr_url :: string
  sr_snippet :: string
  sr_source :: string

record SearchResponse =
  resp_success :: bool
  resp_results :: "SearchResult list"
  resp_source :: string
  resp_total_results :: nat
  resp_response_time :: rat
  resp_error_message :: "string option"

text \<open>
  What the call of one backend does: it returns a response, raises an \<open>Exception\<close>
  (with its message), or raises a \<open>BaseException\<close> that is not an \<open>Exception\<close>, which
  \<open>search_with_semaphore\<close> does not catch and \<open>gather\<close> returns as a value.
\<close>

datatype outcome = Returns SearchResponse | RaisesException string | RaisesBase string

record agent =
  agent_name :: string
  agent_search :: "string \<Rightarrow> int \<Rightarrow> outcome"

datatype gathered = Response SearchResponse | Raised string

definition search_with_semaphore :: "agent list \<Rightarrow> string \<Rightarrow> int \<Rightarrow> agent \<Rightarrow> gathered" where
  "search_with_semaphore agents q num_results ag =
     (case agent_search ag q (num_results div int (length agents) + 2) of
        Returns r \<Rightarrow> Response r
      | RaisesException e \<Rightarrow>
          Response \<lparr> resp_success = False, resp_results = [], resp_source = agent_name ag,
                     resp_total_results = 0, resp_response_time = 0,
                     resp_error_message = Some e \<rparr>
      | RaisesBase e \<Rightarrow> Raised e)"

text \<open>The inner loop of the merge: the results of one response, against the URLs seen.\<close>

fun add_results ::
  "SearchResult list \<Rightarrow> SearchResult list \<times> string set \<Rightarrow> SearchResult list \<times> string set" where
  "add_results [] (all_results, seen_urls) = (all_results, seen_urls)"
| "add_results (result # rest) (all_results, seen_urls) =
     (if sr_url result \<notin> seen_urls
      then add_results rest (all_results @ [result], insert (sr_url result) seen_urls)
      else add_results rest (all_results, seen_urls))"

text \<open>The outer loop, over the gathered responses.\<close>

fun merge_loop ::
  "gathered list \<Rightarrow> SearchResult list \<times> string list \<times> string set \<Rightarrow>
   SearchResult list \<times> string list \<times> string set" where
  "merge_loop [] st = st"
| "merge_loop (Raised e # rest) st = merge_loop rest st"
| "merge_loop (Response r # rest) (all_results, successful_sources, seen_urls) =
     (if resp_success r
      then (case add_results (resp_results r) (all_results, seen_urls) of
              (all_results1, seen_urls1) \<Rightarrow>
                merge_loop rest (all_results1, successful_sources @ [resp_source r], seen_urls1))
      else merge_loop rest (all_results, successful_sources, seen_urls))"

definition rank_key :: "SearchResult \<Rightarrow> nat \<times> nat" where
  "rank_key x = (length (sr_snippet x), if sr_source x = ''wikipedia'' then 1 else 0)"

text \<open>The merge of \<open>MultiSearchAgent.search\<close>, from the gathered responses.\<close>

definition aggregate :: "gathered list \<Rightarrow> int \<Rightarrow> rat \<Rightarrow> SearchResponse" where
  "aggregate responses num_results elapsed =
     (case merge_loop responses ([], [], {}) of
        (all_results, successful_sources, seen_urls) \<Rightarrow>
          \<lparr> resp_success = (length all_results > 0),
            resp_results = py_slice (py_sort_desc rank_key all_results) 0 num_results,
            resp_source = py_join ''+'' successful_sources,
            resp_total_results = length all_results,
            resp_response_time = elapsed,
            resp_error_message = None \<rparr>)"

definition multi_search :: "agent list \<Rightarrow> string \<Rightarrow> int \<Rightarrow> rat \<Rightarrow> SearchResponse" where
  "multi_search agents q num_results elapsed =
     aggregate (map (search_with_semaphore agents q num_results) agents) num_results elapsed"

section \<open>Inputs of the scenarios\<close>

text \<open>A chunk of the given words, as \<open>_chunk_text\<close> builds it.\<close>

definition window_chunk :: "string list \<Rightarrow> string \<Rightarrow> nat \<Rightarrow> DocumentChunk" where
  "window_chunk ws url k =
     \<lparr> content = preprocess_text (py_join '' '' ws), source_url = url, chunk_index = k,
       metadata = \<lparr> word_count = length ws, similarity_score = None \<rparr> \<rparr>"

text \<open>A text of \<open>n\<close> words.\<close>

definition words_text :: "nat \<Rightarrow> string" where
  "words_text n = concat (replicate n ''w '')"

text \<open>A successfully scraped document of 150 characters.\<close>

definition sample_doc :: ScrapedContent where
  "sample_doc =
     \<lparr> sc_url = ''u'', sc_title = ''t'', sc_content = concat (replicate 30 ''word ''),
       sc_text_length = 150, sc_timestamp = 0, sc_success = True, sc_error_message = None,
       sc_method = Some ''trafilatura'' \<rparr>"

text \<open>A scrape that failed, which the filter of \<open>index_documents\<close> skips.\<close>

definition failed_doc :: ScrapedContent where
  "failed_doc =
     \<lparr> sc_url = ''v'', sc_title = [], sc_content = [], sc_text_length = 0, sc_timestamp = 0,
       sc_success = False, sc_error_message = Some ''HTTP 503'', sc_method = None \<rparr>"

text \<open>The filter of \<open>index_documents\<close> on one document.\<close>

definition passes_filter :: "ScrapedContent \<Rightarrow> bool" where
  "passes_filter doc =
     (sc_success doc \<and> sc_content doc \<noteq> [] \<and> length (py_strip (sc_content doc)) > 100)"

text \<open>An encoder that gives every text one row of one column.\<close>

definition unit_encoder :: "string list \<Rightarrow> rat list list" where
  "unit_encoder texts = map (\<lambda>t. [1]) texts"

text \<open>The results of the responses that succeeded, in the order of the responses: what
  the merge reads.\<close>

fun successful_results :: "gathered list \<Rightarrow> SearchResult list" where
  "successful_results [] = []"
| "successful_results (Raised e # rest) = successful_results rest"
| "successful_results (Response r # rest) =
     (if resp_success r then resp_results r @ successful_results rest
      else successful_results rest)"

text \<open>The consistency of the fields of a scraped content.\<close>

definition length_consistent :: "ScrapedContent \<Rightarrow> bool" where
  "length_consistent r =
     (sc_text_length r = length (sc_content r)
      \<and> (if sc_success r then \<exists>t. sc_content r = clean_text t
          else sc_content r = [] \<and> sc_text_length r = 0))"

text \<open>The invariant of the merge loops: \<open>pool\<close> is what has been read so far.\<close>

definition merged_inv :: "SearchResult list \<Rightarrow> SearchResult list \<Rightarrow> string set \<Rightarrow> bool" where
  "merged_inv pool all_results seen_urls =
     (seen_urls = sr_url ` set all_results
      \<and> distinct (map sr_url all_results)
      \<and> list_all (\<lambda>x. List.find (\<lambda>y. sr_url y = sr_url x) pool = Some x) all_results
      \<and> sr_url ` set pool = sr_url ` set all_results)"

text \<open>The contract of the encoder: one row for each text, every row of \<open>d\<close> columns.\<close>

definition encoder_ok :: "(string list \<Rightarrow> rat list list) \<Rightarrow> nat \<Rightarrow> bool" where
  "encoder_ok enc d =
     (\<forall>texts. length (enc texts) = length texts \<and> list_all (\<lambda>row. length row = d) (enc texts))"

text \<open>Index alignment, with what the loop needs to keep it.\<close>

definition aligned :: "nat \<Rightarrow> rag_agent \<Rightarrow> bool" where
  "aligned d a =
     (if use_embeddings a
      then has_model a
           \<and> length (document_chunks a) = matrix_rows (embeddings a)
           \<and> (case embeddings a of None \<Rightarrow> True | Some m \<Rightarrow> list_all (\<lambda>row. length row = d) m)
      else True)"

text \<open>
  The keyword score in the words of the specification: the Jaccard index of the
  lower-cased, whitespace-normalised word sets of the query and of the chunk. Both
  notions are written here on their own, not through the functions of the code:
  whitespace is a list of characters, the words of a text are its maximal runs of
  characters that are not whitespace, and lower-casing replaces each upper-case letter
  by the letter at the same place in the list of lower-case letters.
\<close>

definition whitespace_chars :: "char list" where
  "whitespace_chars = map char_of [9, 10, 11, 12, 13, 28, 29, 30, 31, 32, 133, 160 :: nat]"

definition is_whitespace :: "char \<Rightarrow> bool" where
  "is_whitespace c = List.member whitespace_chars c"

function words_of :: "string \<Rightarrow> string list" where
  "words_of [] = []"
| "words_of (c # cs) =
     (if is_whitespace c then words_of cs
      else (c # takeWhile (\<lambda>x. \<not> is_whitespace x) cs)
           # words_of (dropWhile (\<lambda>x. \<not> is_whitespace x) cs))"
  by pat_completeness auto
termination
  by (relation "measure length") (auto simp: length_dropWhile_le less_Suc_eq_le)

definition upper_case_letters :: "char list" where
  "upper_case_letters =
     ''ABCDEFGHIJKLMNOPQRSTUVWXYZ'' @ map char_of ([192 ..< 215] @ [216 ..< 223])"

definition lower_case_letters :: "char list" where
  "lower_case_letters =
     ''abcdefghijklmnopqrstuvwxyz'' @ map char_of ([224 ..< 247] @ [248 ..< 255])"

definition lower_case_char :: "char \<Rightarrow> char" where
  "lower_case_char c =
     (case map_of (zip upper_case_letters lower_case_letters) c of
        None \<Rightarrow> c
      | Some l \<Rightarrow> l)"

definition lower_case :: "string \<Rightarrow> string" where
  "lower_case s = map lower_case_char s"

definition jaccard :: "string set \<Rightarrow> string set \<Rightarrow> rat" where
  "jaccard A B = (if A \<union> B = {} then 0 else of_nat (card (A \<inter> B)) / of_nat (card (A \<union> B)))"

definition keyword_jaccard :: "string \<Rightarrow> DocumentChunk \<Rightarrow> rat" where
  "keyword_jaccard q c =
     jaccard (set (words_of (lower_case q))) (set (words_of (lower_case (content c))))"






text \<open>The two backends of the scenario of the specification: one answers with the URLs
  a and b, the other with b and c.\<close>

definition result_at :: "string \<Rightarrow> string \<Rightarrow> SearchResult" where
  "result_at u src = \<lparr> sr_title = ''t'', sr_url = u, sr_snippet = ''s'', sr_source = src \<rparr>"

definition response_of :: "string \<Rightarrow> SearchResult list \<Rightarrow> SearchResponse" where
  "response_of src rs =
     \<lparr> resp_success = True, resp_results = rs, resp_source = src,
       resp_total_results = length rs, resp_response_time = 0, resp_error_message = None \<rparr>"

definition two_backends :: "gathered list" where
  "two_backends =
     [Response (response_of ''one'' [result_at ''a'' ''one'', result_at ''b'' ''one'']),
      Response (response_of ''two'' [result_at ''b'' ''two'', result_at ''c'' ''two''])]"

text \<open>Two agents: the first raises, the second answers with one result.\<close>

definition two_agents :: "agent list" where
  "two_agents =
     [\<lparr> agent_name = ''Failing'', agent_search = (\<lambda>q n. RaisesException ''HTTP 500'') \<rparr>,
      \<lparr> agent_name = ''Working'',
        agent_search = (\<lambda>q n. Returns (response_of ''two'' [result_at ''c'' ''two''])) \<rparr>]"

text \<open>The agent that \<open>ImprovedRAGAgent()\<close> builds with its defaults when the embedding
  libraries are installed, and the one it builds when they are not.\<close>

definition fresh_agent :: rag_agent where
  "fresh_agent =
     \<lparr> chunk_size = 512, chunk_overlap = 64, document_chunks = [],
       use_embeddings = True, has_model = True, embeddings = None, index = None \<rparr>"






section \<open>The chunker: the scenario of 1200 words\<close>

lemma py_range0_1200: "py_range0 1200 400 = Inr [0, 400, 800]"
  by (simp add: py_range0_def upt_rec)

lemma py_slice_1200:
  "length ws = 1200 \<Longrightarrow> py_slice ws 0 500 = take 500 ws"
  "length ws = 1200 \<Longrightarrow> py_slice ws 400 900 = take 500 (drop 400 ws)"
  "length ws = 1200 \<Longrightarrow> py_slice ws 800 1300 = drop 800 ws"
  by (simp_all add: py_slice_def py_slice_bound_def)

lemma chunk_words_1200:
  assumes "length ws = 1200"
  shows "chunk_words 500 100 ws url =
     Inr [window_chunk (take 500 ws) url 0, window_chunk (take 500 (drop 400 ws)) url 1,
          window_chunk (drop 800 ws) url 2]"
  using assms
  by (simp add: chunk_words_def py_range0_1200 make_chunk_def py_slice_1200 Let_def
      window_chunk_def)

lemma py_split_words_text: "py_split (words_text n) = replicate n ''w''"
  unfolding py_split_def words_text_def
  by (induction n) (simp_all add: py_isspace_def)

text \<open>
  C4 (as the code has it). A document of exactly 1200 words, chunked with chunk size 500
  and overlap 100, gives exactly three chunks, numbered 0, 1, 2, over the words 0 to 499,
  400 to 899 and 800 to 1199; their word counts are 500, 500 and 400.
\<close>

theorem chunk_text_1200_words:
  assumes "length (py_split text) = 1200"
  shows "\<exists>c1 c2 c3. chunk_text 500 100 text url = Inr [c1, c2, c3]
     \<and> word_counts (chunk_text 500 100 text url) = [500, 500, 400]
     \<and> map chunk_index [c1, c2, c3] = [0, 1, 2]
     \<and> content c1 = preprocess_text (py_join '' '' (take 500 (py_split text)))
     \<and> content c2 = preprocess_text (py_join '' '' (take 500 (drop 400 (py_split text))))
     \<and> content c3 = preprocess_text (py_join '' '' (take 400 (drop 800 (py_split text))))"
  using assms
  by (simp add: chunk_text_def chunk_words_1200 window_chunk_def word_counts_def)

theorem chunk_text_1200_words_witness:
  "length (py_split (words_text 1200)) = 1200
   \<and> word_counts (chunk_text 500 100 (words_text 1200) ''u'') = [500, 500, 400]"
proof -
  have h: "length (py_split (words_text 1200)) = 1200"
    by (simp add: py_split_words_text)
  from chunk_text_1200_words [OF h, of "''u''"] h show ?thesis
    by auto
qed

text \<open>C4 as the claim states it fails: on a document of 1200 words the word counts are
  not 500, 500, 300.\<close>

theorem chunk_text_1200_counterexample:
  "length (py_split (words_text 1200)) = 1200
   \<and> word_counts (chunk_text 500 100 (words_text 1200) ''u'') \<noteq> [500, 500, 300]"
  by (simp add: chunk_text_def py_split_words_text chunk_words_1200 window_chunk_def
      word_counts_def)

section \<open>The constructor does not check the chunk parameters\<close>

lemma sample_doc_long: "length (py_strip (sc_content sample_doc)) > 100"
  by code_simp

lemma sample_doc_ok: "sc_success sample_doc \<and> sc_content sample_doc \<noteq> []"
  by code_simp

lemma chunk_words_zero_step:
  "chunk_words cs cs ws url = Inl (ValueError ''range() arg 3 must not be zero'')"
  by (simp add: chunk_words_def py_range0_def)

lemma chunk_words_negative_step: "cs < co \<Longrightarrow> chunk_words cs co ws url = Inr []"
  by (simp add: chunk_words_def py_range0_def)

lemma collect_negative_step: "cs < co \<Longrightarrow> collect_chunks cs co docs = Inr []"
  by (induction docs) (simp_all add: chunk_text_def chunk_words_negative_step)

lemma collect_zero_step:
  "list_ex passes_filter docs \<Longrightarrow>
   collect_chunks cs cs docs = Inl (ValueError ''range() arg 3 must not be zero'')"
  by (induction docs) (auto simp: passes_filter_def chunk_text_def chunk_words_zero_step)

lemma sample_batch_passes: "list_ex passes_filter [failed_doc, sample_doc]"
  using sample_doc_long sample_doc_ok by (simp add: passes_filter_def)

text \<open>
  C8 (as the code has it). The constructor does not check the chunk size and the
  overlap: it fails exactly when embedding mode is enabled and loading the embedding
  model raises, whatever the two values, and otherwise returns an agent that stores them
  unchecked. With a zero advance step the error is the ValueError of \<open>range\<close>, raised
  by \<open>index_documents\<close> whenever its batch holds a document that passes its filter, and
  the agent is left as it was; with a negative step \<open>index_documents\<close> raises nothing
  and adds no chunk.
\<close>

theorem init_checks_nothing:
  "((\<exists>e. init cs co ue av ld = Inl e) \<longleftrightarrow> ue \<and> av \<and> ld \<noteq> None)
   \<and> (\<forall>a. init cs co ue av ld = Inr a \<longrightarrow>
         chunk_size a = cs \<and> chunk_overlap a = co \<and> document_chunks a = []
         \<and> (cs = co \<and> list_ex passes_filter docs
             \<longrightarrow> index_documents enc nrm a docs
                 = (Some (ValueError ''range() arg 3 must not be zero''), a))
         \<and> (cs < co \<longrightarrow> index_documents enc nrm a docs = (None, a)))"
proof -
  have fails: "(\<exists>e. init cs co ue av ld = Inl e) \<longleftrightarrow> ue \<and> av \<and> ld \<noteq> None"
    by (auto simp: init_def split: option.splits)
  have stored: "chunk_size a = cs \<and> chunk_overlap a = co \<and> document_chunks a = []"
    if "init cs co ue av ld = Inr a" for a
    using that by (auto simp: init_def split: if_splits option.splits)
  have zero: "index_documents enc nrm a docs
      = (Some (ValueError ''range() arg 3 must not be zero''), a)"
    if "chunk_size a = cs" "chunk_overlap a = co" "cs = co" "list_ex passes_filter docs" for a
    using that by (simp add: index_documents_def collect_zero_step)
  have negative: "index_documents enc nrm a docs = (None, a)"
    if "chunk_size a = cs" "chunk_overlap a = co" "document_chunks a = []" "cs < co" for a
    using that by (simp add: index_documents_def collect_negative_step)
  from fails stored zero negative show ?thesis by blast
qed

theorem init_checks_nothing_witness:
  "init 500 500 True True None = Inr (fresh_agent\<lparr>chunk_size := 500, chunk_overlap := 500\<rparr>)
   \<and> list_ex passes_filter [failed_doc, sample_doc]
   \<and> index_documents unit_encoder id (fresh_agent\<lparr>chunk_size := 500, chunk_overlap := 500\<rparr>)
        [failed_doc, sample_doc]
       = (Some (ValueError ''range() arg 3 must not be zero''),
          fresh_agent\<lparr>chunk_size := 500, chunk_overlap := 500\<rparr>)"
proof -
  have i: "init 500 500 True True None
      = Inr (fresh_agent\<lparr>chunk_size := 500, chunk_overlap := 500\<rparr>)"
    by (simp add: init_def fresh_agent_def)
  from init_checks_nothing [of 500 500 True True None "[failed_doc, sample_doc]" unit_encoder id]
    i sample_batch_passes
  show ?thesis by blast
qed

text \<open>C8 as the claim states it fails: with overlap equal to the chunk size the
  constructor returns an agent, and the error comes from the indexing call.\<close>

theorem init_fail_fast_counterexample:
  "init 500 500 True True None =
     Inr \<lparr> chunk_size = 500, chunk_overlap = 500, document_chunks = [],
           use_embeddings = True, has_model = True, embeddings = None, index = None \<rparr>
   \<and> fst (index_documents unit_encoder id
            \<lparr> chunk_size = 500, chunk_overlap = 500, document_chunks = [],
              use_embeddings = True, has_model = True, embeddings = None, index = None \<rparr>
            [sample_doc])
     = Some (ValueError ''range() arg 3 must not be zero'')"
  using sample_doc_long sample_doc_ok
  by (simp add: init_def index_documents_def chunk_text_def chunk_words_zero_step)

section \<open>The retriever\<close>

text \<open>
  C3. Whatever the query, \<open>top_k\<close>, the search backend and the clock, a query on an agent
  with no chunk returns (and does not raise) the result with no relevant chunk, the
  response "No indexed documents available.", confidence 0, no source and both times 0,
  and leaves the agent as it was.
\<close>

theorem query_empty_index:
  "query search clk (a\<lparr>document_chunks := []\<rparr>) q top_k =
     Inr (\<lparr> rr_query = q, relevant_chunks = [],
            generated_response = ''No indexed documents available.'',
            confidence_score = 0, sources = {}, retrieval_time = 0, generation_time = 0 \<rparr>,
          a\<lparr>document_chunks := []\<rparr>)"
  by (simp add: query_def)

text \<open>
  C10. The keyword similarity always returns a number and never raises
  ZeroDivisionError: 0 when the preprocessed query has no word, 0 when the union of the
  two word sets is empty, and the quotient of the sizes of intersection and union
  otherwise.
\<close>

theorem keyword_similarity_total:
  "calculate_keyword_similarity q c =
     Inr (if set (py_split (preprocess_text q)) = {}
             \<or> card (set (py_split (preprocess_text q)) \<union> set (py_split (content c))) = 0
          then 0
          else of_nat (card (set (py_split (preprocess_text q)) \<inter> set (py_split (content c))))
               / of_nat (card (set (py_split (preprocess_text q)) \<union> set (py_split (content c)))))"
  by (simp add: calculate_keyword_similarity_def py_truediv_def Let_def)

section \<open>The scraper\<close>

lemma string_of_nat_503: "string_of_nat 503 = ''503''"
  by code_simp

text \<open>
  C5, on the code. With the default three retries and a server that answers every
  request with status 503, \<open>scrape_url\<close> makes the three requests with no sleep between
  them and returns the failure with the message "HTTP 503".
\<close>

theorem scrape_url_always_503:
  "scrape_url imp default_scraper 5 5 6 (\<lambda>n. FetchStatus 503 pg) url =
     (failed url 6 ''HTTP 503'', default_scraper\<lparr>last_request_time := 5\<rparr>,
      [Request 0, Request 1, Request 2])"
  by (simp add: scrape_url_def default_scraper_def rate_limit_def upt_rec string_of_nat_503)

text \<open>The sibling path: when every request raises, the loop sleeps 1 and 2 seconds
  between the three requests.\<close>

lemma scrape_url_always_raises:
  "scrape_url imp default_scraper 5 5 6 (\<lambda>n. FetchRaises e) url =
     (failed url 6 e, default_scraper\<lparr>last_request_time := 5\<rparr>,
      [Request 0, Sleep 1, Request 1, Sleep 2, Request 2])"
  by (simp add: scrape_url_def default_scraper_def rate_limit_def upt_rec on_exception_def)

lemma extract_content_consistent:
  "extract_content imp url now pg = Inr r \<Longrightarrow> length_consistent r"
  by (auto simp: extract_content_def length_consistent_def scraped_def Let_def
      split: sum.splits if_splits)

lemma retry_loop_consistent:
  "length_consistent (fst (retry_loop imp retries url now fetches attempts err evs))"
proof (induction attempts arbitrary: err evs)
  case Nil
  then show ?case by (simp add: length_consistent_def failed_def)
next
  case (Cons a attempts)
  then show ?case
    by (auto simp: extract_content_consistent split: fetch.splits sum.splits)
qed

text \<open>
  C9. The content that \<open>scrape_url\<close> returns has \<open>text_length\<close> equal to the length of
  its \<open>content\<close>, whatever the requests meet: on success the content is a cleaned text,
  on failure the content is empty and \<open>text_length\<close> is 0.
\<close>

theorem scrape_url_text_length:
  "length_consistent (fst (scrape_url imp s t_now t_after now fetches url))"
  using retry_loop_consistent [of imp "max_retries s" url now fetches]
  by (simp add: scrape_url_def split: prod.splits) (metis fst_conv)

theorem scrape_url_text_length_witness:
  "length_consistent
     (fst (scrape_url \<lparr>bs4_imported = True, trafilatura_imported = True\<rparr> default_scraper 5 5 6
        (\<lambda>n. if n = 0 then FetchRaises ''timeout''
              else FetchStatus 200 \<lparr>pg_trafilatura = Some ''Some  text'', pg_title = NoTitleTag,
                                     pg_main_text = None\<rparr>)
        ''http://x''))"
  by (rule scrape_url_text_length)

section \<open>The search aggregator\<close>

lemma find_append:
  "List.find P (xs @ ys) = (case List.find P xs of None \<Rightarrow> List.find P ys | Some x \<Rightarrow> Some x)"
  by (induction xs) simp_all

lemma merged_inv_skip:
  assumes "merged_inv pool all seen" "sr_url x \<in> seen"
  shows "merged_inv (pool @ [x]) all seen"
  using assms by (auto simp: merged_inv_def list_all_iff find_append)

lemma merged_inv_add:
  assumes "merged_inv pool all seen" "sr_url x \<notin> seen"
  shows "merged_inv (pool @ [x]) (all @ [x]) (insert (sr_url x) seen)"
proof -
  from assms have "sr_url x \<notin> sr_url ` set pool"
    by (simp add: merged_inv_def)
  then have "\<not> (\<exists>y. y \<in> set pool \<and> sr_url y = sr_url x)"
    by (metis image_eqI)
  then have none: "List.find (\<lambda>y. sr_url y = sr_url x) pool = None"
    by (simp add: find_None_iff)
  with assms show ?thesis
    by (auto simp: merged_inv_def list_all_iff find_append)
qed

lemma add_results_inv:
  "merged_inv pool all seen \<Longrightarrow> add_results xs (all, seen) = (all1, seen1)
   \<Longrightarrow> merged_inv (pool @ xs) all1 seen1 \<and> (all1 \<noteq> [] \<longleftrightarrow> all \<noteq> [] \<or> xs \<noteq> [])"
proof (induction xs arbitrary: pool all seen)
  case Nil
  then show ?case by simp
next
  case (Cons x xs)
  show ?case
  proof (cases "sr_url x \<in> seen")
    case True
    with Cons.prems have rec: "add_results xs (all, seen) = (all1, seen1)" by simp
    from True Cons.prems(1) have ne: "all \<noteq> []" by (auto simp: merged_inv_def)
    from Cons.IH [OF merged_inv_skip [OF Cons.prems(1) True] rec] ne
    show ?thesis by simp
  next
    case False
    with Cons.prems have rec: "add_results xs (all @ [x], insert (sr_url x) seen) = (all1, seen1)"
      by simp
    from Cons.IH [OF merged_inv_add [OF Cons.prems(1) False] rec]
    show ?thesis by simp
  qed
qed

lemma merge_loop_inv:
  "merged_inv pool all seen \<Longrightarrow> merge_loop rs (all, srcs, seen) = (all1, srcs1, seen1)
   \<Longrightarrow> merged_inv (pool @ successful_results rs) all1 seen1
       \<and> (all1 \<noteq> [] \<longleftrightarrow> all \<noteq> [] \<or> successful_results rs \<noteq> [])"
proof (induction rs arbitrary: pool all srcs seen)
  case Nil
  then show ?case by simp
next
  case (Cons g rs)
  show ?case
  proof (cases g)
    case (Raised e)
    with Cons show ?thesis by simp
  next
    case (Response r)
    show ?thesis
    proof (cases "resp_success r")
      case False
      with Response Cons show ?thesis by simp
    next
      case True
      obtain all2 seen2 where ar: "add_results (resp_results r) (all, seen) = (all2, seen2)"
        by (cases "add_results (resp_results r) (all, seen)")
      with True Response Cons.prems(2)
      have rec: "merge_loop rs (all2, srcs @ [resp_source r], seen2) = (all1, srcs1, seen1)"
        by simp
      from add_results_inv [OF Cons.prems(1) ar]
      have inv2: "merged_inv (pool @ resp_results r) all2 seen2"
        and ne2: "all2 \<noteq> [] \<longleftrightarrow> all \<noteq> [] \<or> resp_results r \<noteq> []" by simp_all
      from Cons.IH [OF inv2 rec] ne2 True Response
      show ?thesis by auto
    qed
  qed
qed

lemma merged_inv_empty: "merged_inv [] [] {}"
  by (simp add: merged_inv_def)

lemma merge_loop_start:
  assumes "merge_loop rs ([], [], {}) = (all1, srcs1, seen1)"
  shows "merged_inv (successful_results rs) all1 seen1"
    and "all1 \<noteq> [] \<longleftrightarrow> successful_results rs \<noteq> []"
  using merge_loop_inv [OF merged_inv_empty assms] by simp_all

lemma successful_results_nonempty:
  "successful_results rs \<noteq> [] \<longleftrightarrow>
     (\<exists>r. Response r \<in> set rs \<and> resp_success r \<and> resp_results r \<noteq> [])"
  by (induction rs rule: successful_results.induct) auto

lemma set_py_slice: "set (py_slice xs lo hi) \<subseteq> set xs"
  unfolding py_slice_def Let_def
  by (meson set_take_subset set_drop_subset subset_trans)

lemma distinct_map_py_slice:
  "distinct (map f xs) \<Longrightarrow> distinct (map f (py_slice xs lo hi))"
  by (simp add: py_slice_def Let_def take_map [symmetric] drop_map [symmetric])

lemma set_py_sort_desc: "set (py_sort_desc k xs) = set xs"
  by (simp add: py_sort_desc_def)

lemma mset_py_sort_desc: "mset (py_sort_desc k xs) = mset xs"
  by (simp add: py_sort_desc_def)

lemma distinct_map_py_sort_desc:
  "distinct (map f (py_sort_desc k xs)) = distinct (map f xs)"
proof -
  have "mset (map f (py_sort_desc k xs)) = mset (map f xs)"
    by (simp add: mset_py_sort_desc)
  then show ?thesis by (rule mset_eq_imp_distinct_iff)
qed

lemma two_backends_urls:
  "map sr_url (resp_results (aggregate two_backends 10 0)) = [''a'', ''b'', ''c'']"
  by code_simp

lemma two_backends_member:
  "result_at ''b'' ''one'' \<in> set (resp_results (aggregate two_backends 10 0))"
  by code_simp

text \<open>
  C2. Whatever the gathered responses, no two results of the merged response have the
  same URL, and every result of it is the first result with its URL among the results
  of the successful responses, read in order: the first seen is kept, later ones are
  dropped.
\<close>

theorem aggregate_dedup:
  "distinct (map sr_url (resp_results (aggregate responses num_results elapsed)))
   \<and> (\<forall>x \<in> set (resp_results (aggregate responses num_results elapsed)).
        List.find (\<lambda>y. sr_url y = sr_url x) (successful_results responses) = Some x)"
proof -
  obtain all1 srcs1 seen1 where ml: "merge_loop responses ([], [], {}) = (all1, srcs1, seen1)"
    by (cases "merge_loop responses ([], [], {})")
  from merge_loop_start(1) [OF ml]
  have d: "distinct (map sr_url all1)"
    and f: "\<forall>x \<in> set all1.
        List.find (\<lambda>y. sr_url y = sr_url x) (successful_results responses) = Some x"
    by (simp_all add: merged_inv_def list_all_iff)
  have res: "resp_results (aggregate responses num_results elapsed)
      = py_slice (py_sort_desc rank_key all1) 0 num_results"
    by (simp add: aggregate_def ml)
  have "set (py_slice (py_sort_desc rank_key all1) 0 num_results) \<subseteq> set all1"
    using set_py_slice [of "py_sort_desc rank_key all1"] by (simp add: set_py_sort_desc)
  with f d res show ?thesis
    by (auto simp: distinct_map_py_slice distinct_map_py_sort_desc)
qed

theorem aggregate_dedup_witness:
  "distinct (map sr_url (resp_results (aggregate two_backends 10 0)))
   \<and> map sr_url (resp_results (aggregate two_backends 10 0)) = [''a'', ''b'', ''c'']
   \<and> List.find (\<lambda>y. sr_url y = sr_url (result_at ''b'' ''one'')) (successful_results two_backends)
       = Some (result_at ''b'' ''one'')"
  using aggregate_dedup [of two_backends 10 0] two_backends_urls two_backends_member
  by blast

lemma successful_response_of_agent:
  "search_with_semaphore agents q n ag = Response r \<and> resp_success r \<longleftrightarrow>
     agent_search ag q (n div int (length agents) + 2) = Returns r \<and> resp_success r"
  by (auto simp: search_with_semaphore_def split: outcome.splits)

lemma two_agents_success: "resp_success (multi_search two_agents ''q'' 10 0)"
  by code_simp

text \<open>
  C7. The merged response is a success exactly when some gathered response succeeded
  and has at least one result; for the agents, exactly when some agent returned such a
  response. An agent that raises an exception gives the empty response with
  \<open>success=False\<close> and its message, and the merge goes on with the other agents.
\<close>

theorem aggregate_success:
  "(resp_success (aggregate responses num_results elapsed) \<longleftrightarrow>
      (\<exists>r. Response r \<in> set responses \<and> resp_success r \<and> resp_results r \<noteq> []))
   \<and> (resp_success (multi_search agents q num_results elapsed) \<longleftrightarrow>
      (\<exists>ag r. ag \<in> set agents
          \<and> agent_search ag q (num_results div int (length agents) + 2) = Returns r
          \<and> resp_success r \<and> resp_results r \<noteq> []))
   \<and> search_with_semaphore agents q num_results (ag\<lparr>agent_search := \<lambda>q n. RaisesException e\<rparr>)
       = Response \<lparr> resp_success = False, resp_results = [], resp_source = agent_name ag,
                    resp_total_results = 0, resp_response_time = 0,
                    resp_error_message = Some e \<rparr>"
proof -
  have agg: "resp_success (aggregate rs n t) \<longleftrightarrow>
      (\<exists>r. Response r \<in> set rs \<and> resp_success r \<and> resp_results r \<noteq> [])" for rs n t
  proof -
    obtain all1 srcs1 seen1 where ml: "merge_loop rs ([], [], {}) = (all1, srcs1, seen1)"
      by (cases "merge_loop rs ([], [], {})")
    from merge_loop_start(2) [OF ml] show ?thesis
      by (simp add: aggregate_def ml successful_results_nonempty)
  qed
  have "(\<exists>r. Response r \<in> set (map (search_with_semaphore agents q num_results) agents)
            \<and> resp_success r \<and> resp_results r \<noteq> [])
        \<longleftrightarrow> (\<exists>ag r. ag \<in> set agents
          \<and> agent_search ag q (num_results div int (length agents) + 2) = Returns r
          \<and> resp_success r \<and> resp_results r \<noteq> [])"
    using successful_response_of_agent [of agents q num_results]
    by (simp add: image_iff) metis
  then show ?thesis
    by (simp add: agg multi_search_def) (simp add: search_with_semaphore_def)
qed

theorem aggregate_success_witness:
  "resp_success (multi_search two_agents ''q'' 10 0)
   \<and> (\<exists>ag r. ag \<in> set two_agents
          \<and> agent_search ag ''q'' (10 div int (length two_agents) + 2) = Returns r
          \<and> resp_success r \<and> resp_results r \<noteq> [])"
  using aggregate_success [of "[]" 10 0 two_agents "''q''"] two_agents_success
  by blast

section \<open>Index alignment\<close>

lemma vstack_same_columns:
  "list_all (\<lambda>row. length row = d) a \<Longrightarrow> list_all (\<lambda>row. length row = d) b
   \<Longrightarrow> vstack a b = Inr (a @ b)"
  by (auto simp: vstack_def list_all_iff)

lemma index_documents_aligned:
  assumes "encoder_ok enc d" "aligned d a"
  shows "aligned d (snd (index_documents enc nrm a docs))"
proof (cases "collect_chunks (chunk_size a) (chunk_overlap a) docs")
  case (Inl e)
  with assms show ?thesis by (simp add: index_documents_def)
next
  case (Inr new_chunks)
  from assms(1) have len: "length (enc (map content new_chunks)) = length new_chunks"
    and dim: "list_all (\<lambda>row. length row = d) (enc (map content new_chunks))"
    by (simp_all add: encoder_ok_def)
  show ?thesis
  proof (cases "embeddings a")
    case None
    with assms(2) Inr len dim show ?thesis
      by (auto simp: index_documents_def aligned_def Let_def split: if_splits)
  next
    case (Some old)
    with assms(2) have "use_embeddings a \<Longrightarrow> list_all (\<lambda>row. length row = d) old"
      by (simp add: aligned_def)
    then have "use_embeddings a \<Longrightarrow>
        vstack old (enc (map content new_chunks)) = Inr (old @ enc (map content new_chunks))"
      using dim by (simp add: vstack_same_columns)
    with Some assms(2) Inr len dim show ?thesis
      by (auto simp: index_documents_def aligned_def Let_def split: if_splits)
  qed
qed

lemma index_all_aligned:
  assumes "encoder_ok enc d" "aligned d a"
  shows "aligned d (index_all enc nrm a batches)"
  using assms(2) unfolding index_all_def
  by (induction batches arbitrary: a) (simp_all add: index_documents_aligned [OF assms(1)])

lemma init_aligned: "init cs co ue av ld = Inr a \<Longrightarrow> aligned d a"
  by (auto simp: init_def aligned_def split: if_splits option.splits)

lemma unit_encoder_ok: "encoder_ok unit_encoder 1"
  by (simp add: encoder_ok_def unit_encoder_def list_all_iff)

lemma init_fresh_agent: "init 512 64 True True None = Inr fresh_agent"
  by (simp add: init_def fresh_agent_def)

lemma fresh_agent_indexed:
  "use_embeddings (index_all unit_encoder id fresh_agent [[sample_doc], [sample_doc, sample_doc]])
   \<and> length (document_chunks
        (index_all unit_encoder id fresh_agent [[sample_doc], [sample_doc, sample_doc]])) = 3"
  by code_simp

text \<open>
  C1. Let the encoder return one row for each text, all rows of one width. Then after
  any sequence of calls of \<open>index_documents\<close> on a freshly constructed agent, if
  embedding mode is enabled, the number of chunks equals the number of rows of the
  embedding matrix (no row when there is no matrix yet).
\<close>

theorem index_alignment:
  assumes "encoder_ok enc d" "init cs co ue av ld = Inr a0"
    "use_embeddings (index_all enc nrm a0 batches)"
  shows "length (document_chunks (index_all enc nrm a0 batches))
           = matrix_rows (embeddings (index_all enc nrm a0 batches))"
  using index_all_aligned [OF assms(1) init_aligned [OF assms(2)], of nrm batches] assms(3)
  by (simp add: aligned_def)

theorem index_alignment_witness:
  "encoder_ok unit_encoder 1 \<and> init 512 64 True True None = Inr fresh_agent
   \<and> use_embeddings (index_all unit_encoder id fresh_agent [[sample_doc], [sample_doc, sample_doc]])
   \<and> matrix_rows (embeddings
        (index_all unit_encoder id fresh_agent [[sample_doc], [sample_doc, sample_doc]])) = 3"
  using index_alignment [OF unit_encoder_ok init_fresh_agent, of id
      "[[sample_doc], [sample_doc, sample_doc]]"]
    unit_encoder_ok init_fresh_agent fresh_agent_indexed
  by simp

section \<open>Keyword-only retrieval\<close>

subsection \<open>The words of a preprocessed text\<close>

lemma of_char_lt: "(of_char c :: nat) < 256"
  by (rule nat_of_char_less_256)

lemma py_isspace_lower [simp]: "py_isspace (py_lower_char c) = py_isspace c"
proof -
  have "(of_char c :: nat) < 256" by (rule of_char_lt)
  then show ?thesis
    by (auto simp: py_isspace_def py_lower_char_def Let_def)
qed

lemma py_lower_char_idem [simp]: "py_lower_char (py_lower_char c) = py_lower_char c"
proof -
  have "(of_char c :: nat) < 256" by (rule of_char_lt)
  then show ?thesis
    by (auto simp: py_lower_char_def Let_def)
qed

lemma py_isspace_space [simp]: "py_isspace (CHR '' '')"
  by (simp add: py_isspace_def)













lemma py_lower_idem: "py_lower (py_lower w) = py_lower w"
  by (simp add: py_lower_def)

lemma map_py_lower_idem: "map py_lower (map py_lower ws) = map py_lower ws"
  by (simp add: py_lower_idem)


subsection \<open>The code's words and lower-casing are those of the specification\<close>










subsection \<open>The score and the chunks of the index\<close>

















subsection \<open>The ranking\<close>

lemma get_score_set_score [simp]: "get_score (set_score c s) = s"
  by (simp add: get_score_def set_score_def)

lemma content_set_score [simp]: "content (set_score c s) = content c"
  by (simp add: set_score_def)

lemma keyword_jaccard_set_score [simp]: "keyword_jaccard q (set_score c s) = keyword_jaccard q c"
  by (simp add: keyword_jaccard_def)
















end
